theory Spec2Isabelle
  imports Main "HOL-Library.Word"
begin

section \<open>Common types\<close>

text \<open>
  A shallow embedding of \<open>main.go\<close> and \<open>s3.go\<close> of the tiered cache proxy. What the
  program calls in the Go library and in its dependencies (\<open>net/http\<close>, \<open>httputil\<close>,
  \<open>time\<close>, \<open>httpcache\<close>, the AWS client) is a parameter of the functions below or a
  small model that says what it stands for.

  Byte slices and Go strings are byte sequences; both are \<open>char list\<close> here.
  A Go \<open>error\<close> value is an element of \<open>error\<close>: \<open>EOF\<close> is \<open>io.EOF\<close>,
  \<open>ErrUnexpectedEOF\<close> is \<open>io.ErrUnexpectedEOF\<close>, every other error carries its message;
  a \<open>nil\<close> error is \<open>None\<close>. \<open>time.Time\<close> is the number of nanoseconds since the
  Unix epoch, \<open>time.Duration\<close> is Go's \<open>int64\<close> count of nanoseconds, so that its
  arithmetic wraps as Go's does.
\<close>

type_synonym bytes = "char list"

datatype error = EOF | ErrUnexpectedEOF | Err string

type_synonym time = int

type_synonym Duration = "64 word"

text \<open>
  How a call ends: it returns, it panics (the HTTP server recovers a panic of a request's
  goroutine, so only that request is lost), or it calls \<open>log.Fatal\<close>/\<open>log.Fatalf\<close>,
  which print the message and end the whole process with \<open>os.Exit(1)\<close>. A panic and
  a fatal exit carry their message only.
\<close>

datatype 'a outcome = Return 'a | Panic string | Fatal string

text \<open>
  \<open>log.Fatal\<close> ends the process; after a return or a recovered panic it goes on serving.
\<close>

fun process_survives :: "'a outcome \<Rightarrow> bool" where
  "process_survives (Return x) = True"
| "process_survives (Panic m) = True"
| "process_survives (Fatal m) = False"

record url =
  URL_Host :: string
  URL_Path :: string

text \<open>
  \<open>http.Request\<close>, with the fields the program reads or writes. \<open>URL\<close> is a pointer:
  \<open>None\<close> is \<open>nil\<close>.
\<close>

record request =
  Method :: string
  URL :: "url option"
  Host :: string

definition MethodGet :: string where
  "MethodGet = ''GET''"

definition MethodPut :: string where
  "MethodPut = ''PUT''"

section \<open>s3.go: the object-store director\<close>

text \<open>
  \<open>strings.Trim(s, cutset)\<close> removes every leading and trailing character of \<open>s\<close> that
  occurs in \<open>cutset\<close>. For an ASCII cutset the bytes removed are the code points removed.
\<close>

definition strings_Trim :: "string \<Rightarrow> string \<Rightarrow> string" where
  "strings_Trim s cutset =
     rev (dropWhile (\<lambda>c. c \<in> set cutset) (rev (dropWhile (\<lambda>c. c \<in> set cutset) s)))"

definition effectiveKey :: "string \<Rightarrow> string \<Rightarrow> string" where
  "effectiveKey prefix userPath =
     (let userPath = strings_Trim userPath ''/'' in
      if prefix = '''' then userPath
      else if userPath = '''' then prefix
      else prefix @ ''/'' @ userPath)"

text \<open>
  The specification's wording of the key: the prefix and the trimmed path, joined with the
  separator, where an empty component contributes nothing.
\<close>

fun join_sep :: "string \<Rightarrow> string list \<Rightarrow> string" where
  "join_sep sep [] = ''''"
| "join_sep sep [x] = x"
| "join_sep sep (x # y # ys) = x @ sep @ join_sep sep (y # ys)"

definition effectiveKey_spec :: "string \<Rightarrow> string \<Rightarrow> string" where
  "effectiveKey_spec prefix path =
     join_sep ''/'' (filter (\<lambda>part. part \<noteq> '''') [prefix, strings_Trim path ''/''])"

datatype s3op = GetObject | PutObject

record s3Request =
  s3_op :: s3op
  s3_Bucket :: string
  s3_Key :: string

text \<open>
  \<open>s3Director\<close>. The field \<open>s3Svc\<close> is the AWS client; what the director uses of it is
  \<open>Presign\<close> on the request it built, which is a parameter of \<open>Direct\<close> below, as is
  \<open>url.Parse\<close>.
\<close>

record s3Director =
  bucket :: string
  prefix :: string

definition presignValidity :: int where
  "presignValidity = 10 * 60000000000"

text \<open>
  \<open>Direct\<close> (s3.go, lines 36 to 63) rewrites the request in place; the model returns the
  rewritten request. The \<open>switch\<close> on the method builds the read or the write request
  for the key, and calls \<open>log.Fatal\<close> for any other method; so does a failure of
  \<open>Presign(10 * time.Minute)\<close>. The error of \<open>url.Parse\<close> is dropped by the source,
  which then stores the \<open>nil\<close> URL.
\<close>

definition Direct ::
  "(s3Request \<Rightarrow> int \<Rightarrow> error + string) \<Rightarrow> (string \<Rightarrow> error + url) \<Rightarrow>
   s3Director \<Rightarrow> request \<Rightarrow> request outcome" where
  "Direct Presign url_Parse s r =
     (case URL r of
        None \<Rightarrow> Panic ''nil pointer dereference''
      | Some u \<Rightarrow>
          let key = effectiveKey (prefix s) (URL_Path u) in
          (case (if Method r = MethodGet
                 then Some \<lparr> s3_op = GetObject, s3_Bucket = bucket s, s3_Key = key \<rparr>
                 else if Method r = MethodPut
                 then Some \<lparr> s3_op = PutObject, s3_Bucket = bucket s, s3_Key = key \<rparr>
                 else None) of
             None \<Rightarrow> Fatal ''Unsupported method: %s''
           | Some s3Req \<Rightarrow>
               (case Presign s3Req presignValidity of
                  Inl err \<Rightarrow> Fatal ''Presign failed (%v) for request %+v''
                | Inr purl \<Rightarrow>
                    Return (r\<lparr> URL := (case url_Parse purl of Inl err \<Rightarrow> None | Inr u' \<Rightarrow> Some u'),
                               Host := '''' \<rparr>))))"

section \<open>main.go: the caching body tee\<close>

text \<open>
  An \<open>io.ReadCloser\<close> is an interface value: a state with its two methods. \<open>Read(p)\<close>
  gets the length of \<open>p\<close> and returns the new state, the bytes \<open>p[:n]\<close> it has
  written and the error.
\<close>

record 'r readCloser =
  self :: 'r
  ReadM :: "'r \<Rightarrow> nat \<Rightarrow> 'r \<times> bytes \<times> error option"
  CloseM :: "'r \<Rightarrow> 'r \<times> error option"

definition rc_Read :: "'r readCloser \<Rightarrow> nat \<Rightarrow> 'r readCloser \<times> bytes \<times> error option" where
  "rc_Read rc len_p = (case ReadM rc (self rc) len_p of (s', p, err) \<Rightarrow> (rc\<lparr> self := s' \<rparr>, p, err))"

definition rc_Close :: "'r readCloser \<Rightarrow> 'r readCloser \<times> error option" where
  "rc_Close rc = (case CloseM rc (self rc) of (s', err) \<Rightarrow> (rc\<lparr> self := s' \<rparr>, err))"

text \<open>
  \<open>cachingReadCloser\<close> (main.go, lines 43 to 67). The callback \<open>OnEOF\<close> acts on a
  state \<open>'w\<close> outside the tee; in the transport that state is the cache store. \<open>Read\<close>
  reads from \<open>R\<close>, appends the bytes read to \<open>buf\<close> and, when the error is
  \<open>io.EOF\<close>, calls \<open>OnEOF\<close> with all of \<open>buf\<close>. \<open>Close\<close> closes \<open>R\<close>.
\<close>

record ('r, 'w) cachingReadCloser =
  R :: "'r readCloser"
  OnEOF :: "bytes \<Rightarrow> 'w \<Rightarrow> 'w"
  buf :: bytes

definition newCachingReadCloser ::
  "'r readCloser \<Rightarrow> (bytes \<Rightarrow> 'w \<Rightarrow> 'w) \<Rightarrow> ('r, 'w) cachingReadCloser" where
  "newCachingReadCloser body onEOF = \<lparr> R = body, OnEOF = onEOF, buf = [] \<rparr>"

definition cachingReadCloser_Read ::
  "('r, 'w) cachingReadCloser \<Rightarrow> nat \<Rightarrow> 'w \<Rightarrow>
   (('r, 'w) cachingReadCloser \<times> 'w) \<times> bytes \<times> error option" where
  "cachingReadCloser_Read r len_p w =
     (case rc_Read (R r) len_p of
        (R', p, err) \<Rightarrow>
          let r' = r\<lparr> R := R', buf := buf r @ p \<rparr> in
          ((r', if err = Some EOF then OnEOF r' (buf r') w else w), p, err))"

definition cachingReadCloser_Close ::
  "('r, 'w) cachingReadCloser \<Rightarrow> ('r, 'w) cachingReadCloser \<times> error option" where
  "cachingReadCloser_Close r = (case rc_Close (R r) of (R', err) \<Rightarrow> (r\<lparr> R := R' \<rparr>, err))"

text \<open>
  What a reader of the body does with it: any sequence of \<open>Read\<close> calls, with the
  lengths of their buffers, and \<open>Close\<close> calls. \<open>calls\<close> runs the sequence and returns
  the tee, the state the callback acts on, and what every call returned. \<open>copyBody\<close> is
  the copy loop of a reader such as \<open>io.Copy\<close>: it reads with the given buffer lengths
  and stops at the first error.
\<close>

datatype call = CallRead nat | CallClose

fun calls ::
  "('r, 'w) cachingReadCloser \<Rightarrow> 'w \<Rightarrow> call list \<Rightarrow>
   ('r, 'w) cachingReadCloser \<times> 'w \<times> (bytes \<times> error option) list" where
  "calls r w [] = (r, w, [])"
| "calls r w (CallRead len_p # cs) =
     (case cachingReadCloser_Read r len_p w of
        ((r', w'), res) \<Rightarrow> (case calls r' w' cs of (r'', w'', rs) \<Rightarrow> (r'', w'', res # rs)))"
| "calls r w (CallClose # cs) =
     (case cachingReadCloser_Close r of
        (r', err) \<Rightarrow> (case calls r' w cs of (r'', w'', rs) \<Rightarrow> (r'', w'', ([], err) # rs)))"

fun copyBody ::
  "('r, 'w) cachingReadCloser \<Rightarrow> 'w \<Rightarrow> nat list \<Rightarrow>
   (('r, 'w) cachingReadCloser \<times> 'w) \<times> bytes \<times> error option" where
  "copyBody r w [] = ((r, w), [], None)"
| "copyBody r w (len_p # ns) =
     (case cachingReadCloser_Read r len_p w of
        ((r', w'), p, Some e) \<Rightarrow> ((r', w'), p, Some e)
      | ((r', w'), p, None) \<Rightarrow>
          (case copyBody r' w' ns of (st, out, e) \<Rightarrow> (st, p @ out, e)))"

text \<open>
  A body of given bytes, as the underlying \<open>R\<close>: a read delivers the next bytes, at most
  as many as the buffer holds; once none is left a read returns \<open>atEnd\<close>, which is
  \<open>io.EOF\<close> for a complete body and another error for a body that breaks off. With
  \<open>eager\<close> the read that delivers the last bytes already returns \<open>atEnd\<close>, as Go's
  readers may. A read after \<open>Close\<close> fails.
\<close>

record byteStream =
  pending :: bytes
  atEnd :: error
  eager :: bool
  closed :: bool

definition byteStream_Read :: "byteStream \<Rightarrow> nat \<Rightarrow> byteStream \<times> bytes \<times> error option" where
  "byteStream_Read s len_p =
     (if closed s then (s, [], Some (Err ''http: read on closed response body''))
      else if pending s = [] then (s, [], Some (atEnd s))
      else
        let p = take len_p (pending s); rest = drop len_p (pending s) in
        (s\<lparr> pending := rest \<rparr>, p, if rest = [] \<and> eager s then Some (atEnd s) else None))"

definition byteStream_Close :: "byteStream \<Rightarrow> byteStream \<times> error option" where
  "byteStream_Close s = (s\<lparr> closed := True \<rparr>, None)"

definition newByteStream :: "bytes \<Rightarrow> error \<Rightarrow> bool \<Rightarrow> byteStream readCloser" where
  "newByteStream bs e eag =
     \<lparr> self = \<lparr> pending = bs, atEnd = e, eager = eag, closed = False \<rparr>,
       ReadM = byteStream_Read, CloseM = byteStream_Close \<rparr>"

text \<open>
  \<open>reads_from r s\<close>: the tee \<open>r\<close> wraps such a body in state \<open>s\<close>. \<open>record_call\<close> is a
  callback that records its argument; \<open>recorder bs eag\<close> is the tee with that callback
  over the complete body \<open>bs\<close>.
\<close>

definition reads_from :: "(byteStream, 'w) cachingReadCloser \<Rightarrow> byteStream \<Rightarrow> bool" where
  "reads_from r s = (R r = \<lparr> self = s, ReadM = byteStream_Read, CloseM = byteStream_Close \<rparr>)"

definition record_call :: "bytes \<Rightarrow> bytes list \<Rightarrow> bytes list" where
  "record_call b fired = fired @ [b]"

definition recorder :: "bytes \<Rightarrow> bool \<Rightarrow> (byteStream, bytes list) cachingReadCloser" where
  "recorder bs eag = newCachingReadCloser (newByteStream bs EOF eag) record_call"

section \<open>main.go: the caching transport\<close>

text \<open>
  \<open>http.Header\<close> is a map from names to value lists; \<open>Header_index h k\<close> is the index
  expression \<open>h[k]\<close>, the \<open>nil\<close> slice for a missing name. \<open>http.Response\<close> has the
  fields the program and the stored entries depend on; the type of its body varies.
\<close>

type_synonym header = "(string \<times> string list) list"

definition Header_index :: "header \<Rightarrow> string \<Rightarrow> string list" where
  "Header_index h k = (case map_of h k of None \<Rightarrow> [] | Some vs \<Rightarrow> vs)"

record 'b response =
  Status :: string
  StatusCode :: int
  Proto :: string
  Header :: header
  Body :: 'b

definition withBody :: "'a response \<Rightarrow> 'b \<Rightarrow> 'b response" where
  "withBody resp b =
     \<lparr> Status = Status resp, StatusCode = StatusCode resp, Proto = Proto resp,
       Header = Header resp, Body = b \<rparr>"

definition StatusOK :: int where
  "StatusOK = 200"

text \<open>
  The library functions the transport calls: \<open>http.ReadResponse\<close> on the bytes of an
  in-memory reader, \<open>httputil.DumpResponse\<close> (with its \<open>body\<close> flag) on a response
  whose body is an in-memory reader, and \<open>http.ParseTime\<close>.
\<close>

record lib =
  ReadResponse :: "bytes \<Rightarrow> request \<Rightarrow> error + bytes response"
  DumpResponse :: "bytes response \<Rightarrow> bool \<Rightarrow> error + bytes"
  ParseTime :: "string \<Rightarrow> error + time"

text \<open>
  The flags the transport and \<open>main\<close> read (main.go, lines 25 to 33):
  \<open>cache-refresh-delay\<close> is an \<open>int64\<close>, \<open>max-retries\<close> an \<open>int\<close>.
\<close>

record config =
  cacheRefreshDelay :: "64 word"
  allowWrites :: bool
  maxRetries :: int

text \<open>
  \<open>httpcache.Cache\<close>: a store from keys to bytes with \<open>Get\<close>, \<open>Set\<close> and \<open>Delete\<close>.
\<close>

type_synonym cache = "string \<rightharpoonup> bytes"

definition cache_Get :: "cache \<Rightarrow> string \<Rightarrow> bytes option" where
  "cache_Get c key = c key"

definition cache_Set :: "cache \<Rightarrow> string \<Rightarrow> bytes \<Rightarrow> cache" where
  "cache_Set c key v = c(key \<mapsto> v)"

definition cache_Delete :: "cache \<Rightarrow> string \<Rightarrow> cache" where
  "cache_Delete c key = c(key := None)"

text \<open>
  An \<open>http.RoundTripper\<close> is an interface value too: the backend's state and its
  \<open>RoundTrip\<close>, which returns a response or an error. \<open>cachingTransport\<close> (main.go,
  lines 35 to 38) holds one and the cache, \<open>None\<close> when no cache directory is configured.
\<close>

record ('b, 'r) roundTripper =
  rt_self :: 'b
  RoundTripM :: "'b \<Rightarrow> request \<Rightarrow> 'b \<times> (error + 'r readCloser response)"

definition rt_RoundTrip ::
  "('b, 'r) roundTripper \<Rightarrow> request \<Rightarrow> ('b, 'r) roundTripper \<times> (error + 'r readCloser response)" where
  "rt_RoundTrip rt req =
     (case RoundTripM rt (rt_self rt) req of (s', res) \<Rightarrow> (rt\<lparr> rt_self := s' \<rparr>, res))"

record ('b, 'r) cachingTransport =
  Transport :: "('b, 'r) roundTripper"
  Cache :: "cache option"

text \<open>
  The body of a response the transport returns: the rest of a stored entry or of the 405
  literal, the backend's body as it is, or the backend's body wrapped in the tee. The
  deferred function's log line and the two results \<open>resp\<close> and \<open>err\<close> make the result.
\<close>

datatype 'r body =
    BufBody bytes
  | RawBody "'r readCloser"
  | TeeBody "('r, cache) cachingReadCloser"

record logline =
  logAction :: string
  log_status :: "int option"
  log_Host :: string
  log_Method :: string
  log_Path :: string

record 'r result =
  resp :: "'r body response option"
  err :: "error option"
  logged :: logline

text \<open>
  \<open>cachedResponse\<close> (main.go, lines 69 to 77): \<open>Inr None\<close> is the return of
  \<open>nil, nil\<close> for a key the store does not hold.
\<close>

definition cachedResponse ::
  "lib \<Rightarrow> cache \<Rightarrow> string \<Rightarrow> request \<Rightarrow> error + bytes response option" where
  "cachedResponse L c cacheKey req =
     (case cache_Get c cacheKey of
        None \<Rightarrow> Inr None
      | Some cachedVal \<Rightarrow>
          (case ReadResponse L cachedVal req of
             Inl e \<Rightarrow> Inl e
           | Inr r \<Rightarrow> Inr (Some r)))"

text \<open>
  \<open>newDroppedResponse\<close> (main.go, lines 79 to 87) reads the response from the literal
  and panics when that fails.
\<close>

definition CRLF :: string where
  "CRLF = [CHR 0x0D, CHR 0x0A]"

definition droppedRaw :: bytes where
  "droppedRaw = ''HTTP/1.1 405 Method Not Allowed'' @ CRLF @ CRLF"

definition newDroppedResponse :: "lib \<Rightarrow> request \<Rightarrow> bytes response outcome" where
  "newDroppedResponse L req =
     (case ReadResponse L droppedRaw req of
        Inl e \<Rightarrow> Panic ''malformed HTTP response''
      | Inr r \<Rightarrow> Return r)"

text \<open>
  \<open>time.Minute\<close>, \<open>Time.Add\<close> and \<open>Time.Before\<close>. The product
  \<open>time.Duration(*cacheRefreshDelay) * time.Minute\<close> is an \<open>int64\<close> product; adding a
  duration to an instant and comparing instants are exact.
\<close>

definition Minute :: Duration where
  "Minute = 60000000000"

definition time_Add :: "time \<Rightarrow> Duration \<Rightarrow> time" where
  "time_Add t d = t + sint d"

definition time_Before :: "time \<Rightarrow> time \<Rightarrow> bool" where
  "time_Before t u = (t < u)"

text \<open>
  The deferred function (main.go, lines 93 to 102): the action is \<open>ERROR\<close> when \<open>err\<close>
  is not \<open>nil\<close>, the status is that of \<open>resp\<close> when there is one.
\<close>

definition mkLog :: "string \<Rightarrow> error option \<Rightarrow> int option \<Rightarrow> url \<Rightarrow> request \<Rightarrow> logline" where
  "mkLog action e st u req =
     \<lparr> logAction = (if e \<noteq> None then ''ERROR'' else action), log_status = st,
       log_Host = URL_Host u, log_Method = Method req, log_Path = URL_Path u \<rparr>"

text \<open>
  The callback of main.go, lines 143 to 150: it dumps a copy of the response whose body is
  the reader over the bytes read, and stores the dump under the key unless the dump fails.
  The source copies \<open>*resp\<close> when the callback runs, and the copy shares the header map
  with the caller, so it dumps the headers as the caller has left them by then. The model
  dumps the response as the backend returned it: it is the source's callback for a caller
  that has not changed the response, and no property below depends on what is dumped.
\<close>

definition OnEOF_commit :: "lib \<Rightarrow> string \<Rightarrow> 'a response \<Rightarrow> bytes \<Rightarrow> cache \<Rightarrow> cache" where
  "OnEOF_commit L cacheKey rsp r c =
     (case DumpResponse L (withBody rsp r) True of
        Inl e \<Rightarrow> c
      | Inr respBytes \<Rightarrow> cache_Set c cacheKey respBytes)"

text \<open>
  \<open>fetch\<close> is main.go, lines 137 to 153: the call of \<open>t.Transport.RoundTrip\<close> and, when
  it succeeds for a request that is cached, the wrapping of the body. \<open>RoundTrip\<close> is
  main.go, lines 89 to 135, ending in \<open>fetch\<close> where the source falls through to line 137.
  When \<open>cachedResponse\<close> fails the source prints a message, leaves the action empty and
  goes on to fetch. \<open>now\<close> is \<open>time.Now().UTC()\<close>.
\<close>

definition fetch ::
  "lib \<Rightarrow> string \<Rightarrow> bool \<Rightarrow> string \<Rightarrow> url \<Rightarrow> request \<Rightarrow> ('b, 'r) cachingTransport \<Rightarrow>
   'r result \<times> ('b, 'r) cachingTransport" where
  "fetch L action doCache cacheKey u req t =
     (case rt_RoundTrip (Transport t) req of
        (T', Inl e) \<Rightarrow>
          (\<lparr> resp = None, err = Some e, logged = mkLog action (Some e) None u req \<rparr>,
           t\<lparr> Transport := T' \<rparr>)
      | (T', Inr r) \<Rightarrow>
          (\<lparr> resp = Some (withBody r
                  (if doCache
                   then TeeBody (newCachingReadCloser (Body r) (OnEOF_commit L cacheKey r))
                   else RawBody (Body r))),
              err = None, logged = mkLog action None (Some (StatusCode r)) u req \<rparr>,
           t\<lparr> Transport := T' \<rparr>))"

definition RoundTrip ::
  "lib \<Rightarrow> config \<Rightarrow> time \<Rightarrow> ('b, 'r) cachingTransport \<Rightarrow> request \<Rightarrow>
   ('r result \<times> ('b, 'r) cachingTransport) outcome" where
  "RoundTrip L cfg now t req =
     (case URL req of
        None \<Rightarrow> Panic ''nil pointer dereference''
      | Some u \<Rightarrow>
          let cacheKey = URL_Path u;
              doCache = (Method req = MethodGet \<and> Cache t \<noteq> None)
          in
          if doCache then
            (case cachedResponse L (the (Cache t)) cacheKey req of
               Inl e \<Rightarrow> Return (fetch L '''' doCache cacheKey u req t)
             | Inr (Some rsp) \<Rightarrow>
                 (case Header_index (Header rsp) ''Date'' of
                    [] \<Rightarrow> Panic ''index out of range [0] with length 0''
                  | d # ds \<Rightarrow>
                      (case ParseTime L d of
                         Inl e \<Rightarrow> Fatal ''Failed to parse cached request Date: %v''
                       | Inr cachedAt \<Rightarrow>
                           let old = time_Before (time_Add cachedAt (cacheRefreshDelay cfg * Minute)) now in
                           if StatusCode rsp = StatusOK \<or> \<not> old
                           then Return
                                  (\<lparr> resp = Some (withBody rsp (BufBody (Body rsp))), err = None,
                                      logged = mkLog ''CACHE_HIT'' None (Some (StatusCode rsp)) u req \<rparr>, t)
                           else Return
                                  (fetch L ''CACHE_REFRESH'' doCache cacheKey u req
                                     (t\<lparr> Cache := Some (cache_Delete (the (Cache t)) cacheKey) \<rparr>))))
             | Inr None \<Rightarrow> Return (fetch L ''CACHE_MISS'' doCache cacheKey u req t))
          else if (Method req = MethodPut \<and> allowWrites cfg) \<or> Method req = MethodGet
          then Return (fetch L ''PASSTHROUGH'' doCache cacheKey u req t)
          else
            (case newDroppedResponse L req of
               Return rsp \<Rightarrow>
                 Return (\<lparr> resp = Some (withBody rsp (BufBody (Body rsp))), err = None,
                           logged = mkLog ''DROP'' None (Some (StatusCode rsp)) u req \<rparr>, t)
             | Panic m \<Rightarrow> Panic m
             | Fatal m \<Rightarrow> Fatal m))"

section \<open>Library stand-ins\<close>

text \<open>
  Stand-ins for the three library functions, to run the transport on concrete entries.
  \<open>http_ReadResponse\<close> reads the status line (protocol, three-digit code, text), the
  header lines up to the empty line, and takes the rest as the body; it applies no
  \<open>Content-Length\<close> or chunked framing and leaves header names as written.
  \<open>http_DumpResponse\<close> only fills the record of the library's functions: it writes the
  same three parts and none of the framing headers (\<open>Content-Length\<close>,
  \<open>Connection: close\<close>) that the library derives from fields the record does not have,
  so it is not what the library writes, and no property below runs it.
  \<open>http_ParseTime\<close> knows the two dates used below and rejects the other strings used
  below, which are not dates.
\<close>

fun headLines :: "bytes \<Rightarrow> string \<Rightarrow> string list \<Rightarrow> (string list \<times> bytes) option" where
  "headLines [] cur acc = None"
| "headLines (c # cs) cur acc =
     (if c = CHR 0x0A
      then (let line = rev (if cur \<noteq> [] \<and> hd cur = CHR 0x0D then tl cur else cur) in
            if line = [] then Some (rev acc, cs) else headLines cs [] (line # acc))
      else headLines cs (c # cur) acc)"

definition strings_Cut :: "string \<Rightarrow> char \<Rightarrow> (string \<times> string) option" where
  "strings_Cut s sep =
     (if sep \<in> set s
      then Some (takeWhile (\<lambda>c. c \<noteq> sep) s, tl (dropWhile (\<lambda>c. c \<noteq> sep) s))
      else None)"

definition digit :: "char \<Rightarrow> int option" where
  "digit c =
     (let n = (of_char c :: nat) in if 48 \<le> n \<and> n \<le> 57 then Some (int n - 48) else None)"

fun atoi3 :: "string \<Rightarrow> int option" where
  "atoi3 [a, b, c] =
     (case (digit a, digit b, digit c) of
        (Some x, Some y, Some z) \<Rightarrow> Some (100 * x + 10 * y + z)
      | _ \<Rightarrow> None)"
| "atoi3 s = None"

definition headerLine :: "string \<Rightarrow> (string \<times> string) option" where
  "headerLine l =
     (case strings_Cut l (CHR '':'') of
        None \<Rightarrow> None
      | Some (k, v) \<Rightarrow> Some (k, strings_Trim v [CHR '' '', CHR 0x09]))"

fun addHeader :: "header \<Rightarrow> string \<Rightarrow> string \<Rightarrow> header" where
  "addHeader [] k v = [(k, [v])]"
| "addHeader ((k', vs) # h) k v = (if k' = k then (k', vs @ [v]) # h else (k', vs) # addHeader h k v)"

fun headerLines :: "string list \<Rightarrow> header \<Rightarrow> header option" where
  "headerLines [] h = Some h"
| "headerLines (l # ls) h =
     (case headerLine l of
        None \<Rightarrow> None
      | Some (k, v) \<Rightarrow> headerLines ls (addHeader h k v))"

definition http_ReadResponse :: "bytes \<Rightarrow> request \<Rightarrow> error + bytes response" where
  "http_ReadResponse raw req =
     (case headLines raw [] [] of
        None \<Rightarrow> Inl ErrUnexpectedEOF
      | Some ([], rest) \<Rightarrow> Inl (Err ''malformed HTTP response'')
      | Some (line # ls, rest) \<Rightarrow>
          (case strings_Cut line (CHR '' '') of
             None \<Rightarrow> Inl (Err ''malformed HTTP response'')
           | Some (proto, st) \<Rightarrow>
               let status = dropWhile (\<lambda>c. c = CHR '' '') st in
               (case atoi3 (takeWhile (\<lambda>c. c \<noteq> CHR '' '') status) of
                  None \<Rightarrow> Inl (Err ''malformed HTTP status code'')
                | Some code \<Rightarrow>
                    (case headerLines ls [] of
                       None \<Rightarrow> Inl (Err ''malformed MIME header line'')
                     | Some h \<Rightarrow>
                         Inr \<lparr> Status = status, StatusCode = code, Proto = proto,
                               Header = h, Body = rest \<rparr>))))"

definition http_DumpResponse :: "bytes response \<Rightarrow> bool \<Rightarrow> error + bytes" where
  "http_DumpResponse rsp body =
     Inr (Proto rsp @ '' '' @ Status rsp @ CRLF
          @ concat (map (\<lambda>(k, vs). concat (map (\<lambda>v. k @ '': '' @ v @ CRLF) vs)) (Header rsp))
          @ CRLF @ (if body then Body rsp else []))"

definition http_ParseTime :: "string \<Rightarrow> error + time" where
  "http_ParseTime s =
     (if s = ''Thu, 01 Jan 1970 00:00:00 GMT'' then Inr 0
      else if s = ''Thu, 01 Jan 1970 01:00:00 GMT'' then Inr 3600000000000
      else Inl (Err ''parsing time: cannot parse''))"

definition net_http :: lib where
  "net_http = \<lparr> ReadResponse = http_ReadResponse, DumpResponse = http_DumpResponse,
                ParseTime = http_ParseTime \<rparr>"

section \<open>main.go: the wiring of the transports\<close>

text \<open>
  What \<open>main\<close> does with the transports (main.go, lines 180 to 201): the local variable
  \<open>baseTransport\<close> starts as \<open>http.DefaultTransport\<close> and, when \<open>max-retries\<close> is
  above 1, becomes \<open>rehttp.NewTransport\<close> around it with \<open>RetryMaxRetries(maxRetries)\<close>;
  the \<open>Transport\<close> field of the caching transport installed in the handler is
  \<open>http.DefaultTransport\<close>. \<open>main_wiring\<close> returns both.
\<close>

datatype roundTripperKind =
    DefaultTransport
  | RehttpTransport roundTripperKind int

record wiring =
  baseTransport :: roundTripperKind
  handler_Transport :: roundTripperKind

definition main_wiring :: "config \<Rightarrow> wiring" where
  "main_wiring cfg =
     (let baseTransport = DefaultTransport;
          baseTransport = (if maxRetries cfg > 1
                           then RehttpTransport baseTransport (maxRetries cfg)
                           else baseTransport)
      in \<lparr> baseTransport = baseTransport, handler_Transport = DefaultTransport \<rparr>)"

section \<open>Concrete requests, entries and backends\<close>

text \<open>
  \<open>presign_denied\<close> is a client without credentials. \<open>origin\<close> is a backend that
  answers every request with a 200 whose body is \<open>blob\<close> and counts the requests it
  served. \<open>holding entry\<close> is the transport whose store holds \<open>entry\<close> under \<open>/x\<close>.
  \<open>tee_truncated\<close> is the transport's tee over a body that breaks off after \<open>par\<close>.
\<close>

definition presign_denied :: "s3Request \<Rightarrow> int \<Rightarrow> error + string" where
  "presign_denied s3Req validity = Inl (Err ''NoCredentialProviders: no valid providers in chain'')"

definition url_Parse_unused :: "string \<Rightarrow> error + url" where
  "url_Parse_unused raw = Inl (Err ''parse'')"

definition mybucket :: s3Director where
  "mybucket = \<lparr> bucket = ''mybucket'', prefix = ''prefix'' \<rparr>"

definition url_ab_cd12 :: url where
  "url_ab_cd12 = \<lparr> URL_Host = ''127.0.0.1:7643'', URL_Path = ''/ab/cd12'' \<rparr>"

definition get_ab_cd12 :: request where
  "get_ab_cd12 = \<lparr> Method = ''GET'', URL = Some url_ab_cd12, Host = ''127.0.0.1:7643'' \<rparr>"

definition put_ab_cd12 :: request where
  "put_ab_cd12 = \<lparr> Method = ''PUT'', URL = Some url_ab_cd12, Host = ''127.0.0.1:7643'' \<rparr>"

definition url_x :: url where
  "url_x = \<lparr> URL_Host = ''backend.example'', URL_Path = ''/x'' \<rparr>"

definition get_x :: request where
  "get_x = \<lparr> Method = ''GET'', URL = Some url_x, Host = ''backend.example'' \<rparr>"

definition put_x :: request where
  "put_x = \<lparr> Method = ''PUT'', URL = Some url_x, Host = ''backend.example'' \<rparr>"

definition cfg60 :: config where
  "cfg60 = \<lparr> cacheRefreshDelay = 60, allowWrites = False, maxRetries = 1 \<rparr>"

definition cfg60_writes :: config where
  "cfg60_writes = \<lparr> cacheRefreshDelay = 60, allowWrites = True, maxRetries = 1 \<rparr>"

definition cfg_retries3 :: config where
  "cfg_retries3 = \<lparr> cacheRefreshDelay = 60, allowWrites = False, maxRetries = 3 \<rparr>"

definition entry404 :: bytes where
  "entry404 = ''HTTP/1.1 404 Not Found'' @ CRLF @ ''Date: Thu, 01 Jan 1970 00:00:00 GMT'' @ CRLF @ CRLF"

definition entry_baddate :: bytes where
  "entry_baddate = ''HTTP/1.1 404 Not Found'' @ CRLF @ ''Date: yesterday'' @ CRLF @ CRLF"

definition entry_nodate :: bytes where
  "entry_nodate = ''HTTP/1.1 404 Not Found'' @ CRLF @ CRLF"

definition origin_response :: "byteStream readCloser response" where
  "origin_response =
     \<lparr> Status = ''200 OK'', StatusCode = 200, Proto = ''HTTP/1.1'',
       Header = [(''Date'', [''Thu, 01 Jan 1970 00:00:00 GMT''])],
       Body = newByteStream ''blob'' EOF True \<rparr>"

definition originM :: "nat \<Rightarrow> request \<Rightarrow> nat \<times> (error + byteStream readCloser response)" where
  "originM served req = (Suc served, Inr origin_response)"

definition origin :: "(nat, byteStream) roundTripper" where
  "origin = \<lparr> rt_self = 0, RoundTripM = originM \<rparr>"

definition holding :: "bytes \<Rightarrow> (nat, byteStream) cachingTransport" where
  "holding entry = \<lparr> Transport = origin, Cache = Some (cache_Set Map.empty ''/x'' entry) \<rparr>"

definition empty_cache :: "(nat, byteStream) cachingTransport" where
  "empty_cache = \<lparr> Transport = origin, Cache = Some Map.empty \<rparr>"

definition tee_truncated :: "(byteStream, cache) cachingReadCloser" where
  "tee_truncated =
     newCachingReadCloser (newByteStream ''par'' ErrUnexpectedEOF False)
       (OnEOF_commit net_http ''/x'' origin_response)"

section \<open>Properties of the director\<close>

text \<open>
  What \<open>strings_Trim\<close> returns neither starts nor ends with a character of the cutset.
\<close>

lemma last_dropWhile: "dropWhile P ys \<noteq> [] \<Longrightarrow> last (dropWhile P ys) = last ys"
  by (induction ys) (auto split: if_splits)

lemma strings_Trim_last:
  assumes "strings_Trim s cutset \<noteq> []"
  shows "last (strings_Trim s cutset) \<notin> set cutset"
proof -
  let ?P = "\<lambda>c. c \<in> set cutset"
  let ?d = "dropWhile ?P (rev (dropWhile ?P s))"
  have ne: "?d \<noteq> []"
    using assms by (simp add: strings_Trim_def)
  then have "\<not> ?P (hd ?d)"
    by (rule hd_dropWhile)
  moreover have "last (strings_Trim s cutset) = hd ?d"
    using ne by (simp add: strings_Trim_def last_rev)
  ultimately show ?thesis
    by simp
qed

lemma strings_Trim_hd:
  assumes "strings_Trim s cutset \<noteq> []"
  shows "hd (strings_Trim s cutset) \<notin> set cutset"
proof -
  let ?P = "\<lambda>c. c \<in> set cutset"
  let ?m = "dropWhile ?P s"
  have ne: "dropWhile ?P (rev ?m) \<noteq> []"
    using assms by (simp add: strings_Trim_def)
  then have "?m \<noteq> []"
    by (cases "?m") simp_all
  then have first: "\<not> ?P (hd ?m)"
    by (rule hd_dropWhile)
  have "hd (strings_Trim s cutset) = last (dropWhile ?P (rev ?m))"
    using ne by (simp add: strings_Trim_def hd_rev)
  also have "\<dots> = last (rev ?m)"
    using ne by (rule last_dropWhile)
  also have "\<dots> = hd ?m"
    using \<open>?m \<noteq> []\<close> by (simp add: last_rev)
  finally show ?thesis
    using first by simp
qed

text \<open>
  C8. For every prefix and path, \<open>effectiveKey\<close> is the prefix and the slash-trimmed path
  joined with \<open>/\<close>, an empty component contributing nothing; with the empty prefix it is
  the trimmed path, \<open>effectiveKey("pfx", "") = "pfx"\<close> and
  \<open>effectiveKey("pfx", "a/b") = "pfx/a/b"\<close>.
\<close>

theorem effectiveKey_joins:
  "effectiveKey pfx p = effectiveKey_spec pfx p
   \<and> effectiveKey '''' p = strings_Trim p ''/''
   \<and> effectiveKey ''pfx'' '''' = ''pfx''
   \<and> effectiveKey ''pfx'' ''a/b'' = ''pfx/a/b''"
proof -
  have general: "effectiveKey pfx p = effectiveKey_spec pfx p"
    by (simp add: effectiveKey_def effectiveKey_spec_def Let_def)
  have no_prefix: "effectiveKey '''' p = strings_Trim p ''/''"
    by (simp add: effectiveKey_def)
  have no_path: "effectiveKey ''pfx'' '''' = ''pfx''"
    by (simp add: effectiveKey_def strings_Trim_def)
  have both: "effectiveKey ''pfx'' ''a/b'' = ''pfx/a/b''"
    by (simp add: effectiveKey_def strings_Trim_def)
  from general no_prefix no_path both show ?thesis
    by blast
qed

text \<open>
  C4, as the code has it. For every \<open>GET\<close> or \<open>PUT\<close> request directed to the object
  store, a failure to generate the presigned URL ends in \<open>log.Fatal\<close>: the process does
  not survive it, and the request is not handed on, in particular not as plain passthrough.
\<close>

theorem Direct_presign_failure_fatal:
  assumes "URL r = Some u"
    and "Method r = MethodGet \<or> Method r = MethodPut"
    and "Presign \<lparr> s3_op = (if Method r = MethodGet then GetObject else PutObject),
                    s3_Bucket = bucket s, s3_Key = effectiveKey (prefix s) (URL_Path u) \<rparr>
           presignValidity = Inl e"
  shows "Direct Presign url_Parse s r = Fatal ''Presign failed (%v) for request %+v''
         \<and> \<not> process_survives (Direct Presign url_Parse s r)
         \<and> (\<forall>r'. Direct Presign url_Parse s r \<noteq> Return r')"
  using assms by (auto simp: Direct_def Let_def)

theorem Direct_presign_failure_fatal_witness:
  "Direct presign_denied url_Parse_unused mybucket put_ab_cd12 = Fatal ''Presign failed (%v) for request %+v''
   \<and> \<not> process_survives (Direct presign_denied url_Parse_unused mybucket put_ab_cd12)"
  using Direct_presign_failure_fatal [of put_ab_cd12 url_ab_cd12 presign_denied mybucket _ url_Parse_unused]
  by (simp add: put_ab_cd12_def MethodGet_def MethodPut_def presign_denied_def)

text \<open>
  The request of the specification's scenario, \<open>GET /ab/cd12\<close> on bucket \<open>mybucket\<close>
  with prefix \<open>prefix\<close>, when no credentials are available: the process ends.
\<close>

theorem Direct_presign_failure_counterexample:
  "\<not> process_survives (Direct presign_denied url_Parse_unused mybucket get_ab_cd12)"
  by (simp add: Direct_def get_ab_cd12_def url_ab_cd12_def MethodGet_def MethodPut_def
      presign_denied_def Let_def)

section \<open>Properties of the tee\<close>

lemma no_EOF_no_commit:
  "calls r w cs = (r', w', rs) \<Longrightarrow> \<forall>res \<in> set rs. snd res \<noteq> Some EOF \<Longrightarrow> w' = w"
proof (induction cs arbitrary: r w r' w' rs)
  case Nil
  then show ?case by simp
next
  case (Cons c cs)
  show ?case
  proof (cases c)
    case (CallRead n)
    obtain r1 w1 p e where rd: "cachingReadCloser_Read r n w = ((r1, w1), p, e)"
      by (metis prod.exhaust)
    obtain r2 w2 rs2 where rest: "calls r1 w1 cs = (r2, w2, rs2)"
      by (metis prod.exhaust)
    from Cons.prems(1) CallRead rd rest have eq: "r' = r2" "w' = w2" "rs = (p, e) # rs2"
      by simp_all
    with Cons.prems(2) have ne: "e \<noteq> Some EOF" and tl: "\<forall>res \<in> set rs2. snd res \<noteq> Some EOF"
      by simp_all
    from rd ne have "w1 = w"
      by (auto simp: cachingReadCloser_Read_def Let_def split: prod.splits if_splits)
    moreover from Cons.IH [OF rest tl] have "w2 = w1" .
    ultimately show ?thesis using eq by simp
  next
    case CallClose
    obtain r1 e where cl: "cachingReadCloser_Close r = (r1, e)"
      by (metis prod.exhaust)
    obtain r2 w2 rs2 where rest: "calls r1 w cs = (r2, w2, rs2)"
      by (metis prod.exhaust)
    from Cons.prems(1) CallClose cl rest have eq: "w' = w2" "rs = ([], e) # rs2"
      by simp_all
    with Cons.prems(2) have tl: "\<forall>res \<in> set rs2. snd res \<noteq> Some EOF"
      by simp
    from Cons.IH [OF rest tl] eq show ?thesis by simp
  qed
qed

lemma byteStream_Read_facts:
  assumes "byteStream_Read s n = (s', p, e)"
  shows "p @ pending s' = pending s" and "atEnd s' = atEnd s" and "eager s' = eager s"
    and "closed s' = closed s" and "e = Some EOF \<Longrightarrow> pending s' = []"
  using assms by (auto simp: byteStream_Read_def Let_def split: if_splits)

lemma tee_Read_byteStream:
  assumes "reads_from r s" and "byteStream_Read s n = (s', p, e)"
  shows "cachingReadCloser_Read r n w =
     ((r\<lparr> R := \<lparr> self = s', ReadM = byteStream_Read, CloseM = byteStream_Close \<rparr>,
          buf := buf r @ p \<rparr>,
       if e = Some EOF then OnEOF r (buf r @ p) w else w), p, e)"
  using assms by (simp add: reads_from_def cachingReadCloser_Read_def rc_Read_def Let_def)

lemma tee_Close_byteStream:
  assumes "reads_from r s"
  shows "cachingReadCloser_Close r =
     (r\<lparr> R := \<lparr> self = s\<lparr> closed := True \<rparr>, ReadM = byteStream_Read, CloseM = byteStream_Close \<rparr> \<rparr>, None)"
  using assms by (simp add: reads_from_def cachingReadCloser_Close_def rc_Close_def byteStream_Close_def)

lemma calls_byteStream:
  assumes "reads_from r s"
  shows "fst (snd (calls r w cs)) =
     (OnEOF r (buf r @ pending s) ^^ length (filter (\<lambda>res. snd res = Some EOF) (snd (snd (calls r w cs))))) w"
  using assms
proof (induction cs arbitrary: r s w)
  case Nil
  then show ?case by simp
next
  case (Cons c cs)
  show ?case
  proof (cases c)
    case (CallRead n)
    obtain s' p e where rd: "byteStream_Read s n = (s', p, e)"
      by (metis prod.exhaust)
    let ?r' = "r\<lparr> R := \<lparr> self = s', ReadM = byteStream_Read, CloseM = byteStream_Close \<rparr>,
                   buf := buf r @ p \<rparr>"
    let ?w' = "if e = Some EOF then OnEOF r (buf r @ p) w else w"
    have step: "cachingReadCloser_Read r n w = ((?r', ?w'), p, e)"
      using tee_Read_byteStream [OF Cons.prems rd] .
    have from': "reads_from ?r' s'"
      by (simp add: reads_from_def)
    have same: "buf ?r' @ pending s' = buf r @ pending s"
      using byteStream_Read_facts(1) [OF rd] by simp
    have ih: "fst (snd (calls ?r' ?w' cs)) =
        (OnEOF r (buf r @ pending s) ^^ length (filter (\<lambda>res. snd res = Some EOF) (snd (snd (calls ?r' ?w' cs))))) ?w'"
      using Cons.IH [OF from', of ?w'] same by simp
    obtain r2 w2 rs2 where rest: "calls ?r' ?w' cs = (r2, w2, rs2)"
      by (metis prod.exhaust)
    have w2: "w2 = (OnEOF r (buf r @ pending s) ^^ length (filter (\<lambda>res. snd res = Some EOF) rs2)) ?w'"
      using ih rest by simp
    have whole: "calls r w (c # cs) = (r2, w2, (p, e) # rs2)"
      using CallRead step rest by simp
    show ?thesis
    proof (cases "e = Some EOF")
      case True
      then have "pending s' = []"
        using byteStream_Read_facts(5) [OF rd] by simp
      then have "buf r @ p = buf r @ pending s"
        using same by simp
      then show ?thesis
        using whole w2 True by (simp add: funpow_swap1)
    next
      case False
      then show ?thesis
        using whole w2 by simp
    qed
  next
    case CallClose
    let ?r' = "r\<lparr> R := \<lparr> self = s\<lparr> closed := True \<rparr>, ReadM = byteStream_Read, CloseM = byteStream_Close \<rparr> \<rparr>"
    have step: "cachingReadCloser_Close r = (?r', None)"
      using tee_Close_byteStream [OF Cons.prems] .
    have from': "reads_from ?r' (s\<lparr> closed := True \<rparr>)"
      by (simp add: reads_from_def)
    have ih: "fst (snd (calls ?r' w cs)) =
        (OnEOF r (buf r @ pending s) ^^ length (filter (\<lambda>res. snd res = Some EOF) (snd (snd (calls ?r' w cs))))) w"
      using Cons.IH [OF from', of w] by simp
    obtain r2 w2 rs2 where rest: "calls ?r' w cs = (r2, w2, rs2)"
      by (metis prod.exhaust)
    have whole: "calls r w (c # cs) = (r2, w2, ([], None) # rs2)"
      using CallClose step rest by simp
    show ?thesis
      using whole ih rest by simp
  qed
qed

lemma copyBody_byteStream:
  assumes "reads_from r s" and "atEnd s = EOF" and "\<not> closed s"
    and "\<forall>n \<in> set ns. 0 < n" and "length (pending s) < length ns"
  shows "snd (fst (copyBody r w ns)) = OnEOF r (buf r @ pending s) w
         \<and> snd (copyBody r w ns) = (pending s, Some EOF)"
  using assms
proof (induction ns arbitrary: r s w)
  case Nil
  then show ?case by simp
next
  case (Cons n ns)
  obtain s' p e where rd: "byteStream_Read s n = (s', p, e)"
    by (metis prod.exhaust)
  let ?r' = "r\<lparr> R := \<lparr> self = s', ReadM = byteStream_Read, CloseM = byteStream_Close \<rparr>,
                 buf := buf r @ p \<rparr>"
  let ?w' = "if e = Some EOF then OnEOF r (buf r @ p) w else w"
  have step: "cachingReadCloser_Read r n w = ((?r', ?w'), p, e)"
    using tee_Read_byteStream [OF Cons.prems(1) rd] .
  have split: "p @ pending s' = pending s"
    using byteStream_Read_facts(1) [OF rd] .
  have e_cases: "e = Some EOF \<or> e = None"
    using rd Cons.prems(2,3) by (auto simp: byteStream_Read_def Let_def split: if_splits)
  show ?case
  proof (cases "e = Some EOF")
    case True
    then have "pending s' = []"
      using byteStream_Read_facts(5) [OF rd] by simp
    then have "p = pending s"
      using split by simp
    then show ?thesis
      using step True by simp
  next
    case False
    then have none: "e = None"
      using e_cases by simp
    have pos: "0 < n"
      using Cons.prems(4) by simp
    have nonempty: "pending s \<noteq> []"
      using rd none Cons.prems(3) by (auto simp: byteStream_Read_def Let_def split: if_splits)
    have p_def: "p = take n (pending s)" and s'_def: "pending s' = drop n (pending s)"
      using rd none nonempty Cons.prems(3) by (auto simp: byteStream_Read_def Let_def split: if_splits)
    have shorter: "length (pending s') < length ns"
      using s'_def pos nonempty Cons.prems(5) by (cases "pending s") auto
    have from': "reads_from ?r' s'"
      by (simp add: reads_from_def)
    have ih: "snd (fst (copyBody ?r' w ns)) = OnEOF r (buf r @ pending s) w
              \<and> snd (copyBody ?r' w ns) = (pending s', Some EOF)"
      using Cons.IH [OF from', of w] byteStream_Read_facts(2,4) [OF rd] Cons.prems(2,3,4) shorter split
      by simp
    obtain st out e' where rest: "copyBody ?r' w ns = (st, out, e')"
      by (metis prod.exhaust)
    have whole: "copyBody r w (n # ns) = (st, p @ out, e')"
      using step none rest by simp
    show ?thesis
      using whole ih rest split by simp
  qed
qed

lemma record_call_funpow: "(record_call b ^^ m) fired = fired @ replicate m b"
proof (induction m arbitrary: fired)
  case 0
  then show ?case by simp
next
  case (Suc m)
  have step: "record_call b fired = fired @ [b]"
    by (simp add: record_call_def)
  have "(record_call b ^^ Suc m) fired = (record_call b ^^ m) (record_call b fired)"
    by (simp add: funpow_swap1)
  also have "\<dots> = (fired @ [b]) @ replicate m b"
    unfolding step by (rule Suc.IH)
  also have "\<dots> = fired @ replicate (Suc m) b"
    by simp
  finally show ?case .
qed

lemma reads_from_new:
  "reads_from (newCachingReadCloser (newByteStream bs e eag) f)
     \<lparr> pending = bs, atEnd = e, eager = eag, closed = False \<rparr>"
  by (simp add: reads_from_def newCachingReadCloser_def newByteStream_def)

text \<open>
  C5, as the code has it. A body of the bytes \<open>bs\<close> that ends with \<open>io.EOF\<close> is read
  through the tee in arbitrary chunk sizes, closes included. The callback is called once
  at each read that returns \<open>io.EOF\<close>, never at another read, and each time with
  exactly \<open>bs\<close>. A reader that stops at the first \<open>io.EOF\<close> (positive chunk sizes,
  enough reads) therefore sees the callback exactly once, with exactly \<open>bs\<close>, and has
  received \<open>bs\<close>.
\<close>

theorem tee_commits_at_each_EOF:
  "fst (snd (calls (recorder bs eag) [] cs)) =
     replicate (length (filter (\<lambda>res. snd res = Some EOF) (snd (snd (calls (recorder bs eag) [] cs))))) bs
   \<and> ((\<forall>n \<in> set ns. 0 < n) \<and> length bs < length ns \<longrightarrow>
        snd (fst (copyBody (recorder bs eag) [] ns)) = [bs]
        \<and> snd (copyBody (recorder bs eag) [] ns) = (bs, Some EOF))"
proof -
  let ?s = "\<lparr> pending = bs, atEnd = EOF, eager = eag, closed = False \<rparr>"
  have rf: "reads_from (recorder bs eag) ?s"
    unfolding recorder_def by (rule reads_from_new)
  have cb: "OnEOF (recorder bs eag) = record_call" and empty: "buf (recorder bs eag) = []"
    by (simp_all add: recorder_def newCachingReadCloser_def)
  have every: "fst (snd (calls (recorder bs eag) [] cs)) =
     replicate (length (filter (\<lambda>res. snd res = Some EOF) (snd (snd (calls (recorder bs eag) [] cs))))) bs"
    using calls_byteStream [OF rf, of "[]" cs] cb empty
    by (simp add: record_call_funpow)
  have once: "snd (fst (copyBody (recorder bs eag) [] ns)) = [bs]
        \<and> snd (copyBody (recorder bs eag) [] ns) = (bs, Some EOF)"
    if "\<forall>n \<in> set ns. 0 < n" and "length bs < length ns"
    using copyBody_byteStream [OF rf, of ns "[]"] that cb empty
    by (simp add: record_call_def)
  from every once show ?thesis
    by blast
qed

theorem tee_commits_at_each_EOF_witness:
  "snd (fst (copyBody (recorder ''ab'' False) [] [1, 1, 1])) = [''ab'']
   \<and> snd (copyBody (recorder ''ab'' False) [] [1, 1, 1]) = (''ab'', Some EOF)"
  using tee_commits_at_each_EOF [of "''ab''" False "[]" "[1, 1, 1]"]
  by simp

text \<open>
  Reads continued after the end of data: the two bytes \<open>ab\<close> read with three reads of
  size 2. The second and the third read both return \<open>io.EOF\<close>, and the callback runs twice.
\<close>

theorem tee_commits_twice_counterexample:
  "fst (snd (calls (recorder ''ab'' False) [] [CallRead 2, CallRead 2, CallRead 2])) = [''ab'', ''ab'']"
  by (simp add: recorder_def newCachingReadCloser_def newByteStream_def cachingReadCloser_Read_def
      rc_Read_def byteStream_Read_def record_call_def Let_def)

text \<open>
  C6. Whatever the wrapped body and the callback are: when no read through the tee has
  returned \<open>io.EOF\<close> (the reads ended with another error, or the body was closed before
  its end), the callback has not run, so what it acts on, the cache store, is unchanged.
\<close>

theorem tee_no_commit_without_EOF:
  "\<forall>res \<in> set (snd (snd (calls r w cs))). snd res \<noteq> Some EOF \<Longrightarrow> fst (snd (calls r w cs)) = w"
proof -
  assume quiet: "\<forall>res \<in> set (snd (snd (calls r w cs))). snd res \<noteq> Some EOF"
  obtain r' w' rs where run: "calls r w cs = (r', w', rs)"
    by (metis prod.exhaust)
  with quiet have "\<forall>res \<in> set rs. snd res \<noteq> Some EOF"
    by simp
  with run have "w' = w"
    by (rule no_EOF_no_commit)
  with run show ?thesis
    by simp
qed

lemma tee_truncated_results:
  "snd (snd (calls tee_truncated Map.empty [CallRead 2, CallRead 2, CallRead 2, CallClose])) =
     [(''pa'', None), (''r'', None), ('''', Some ErrUnexpectedEOF), ('''', None)]"
  by (simp add: tee_truncated_def newCachingReadCloser_def newByteStream_def cachingReadCloser_Read_def
      cachingReadCloser_Close_def rc_Read_def rc_Close_def byteStream_Read_def byteStream_Close_def Let_def)

theorem tee_no_commit_without_EOF_witness:
  "snd (snd (calls tee_truncated Map.empty [CallRead 2, CallRead 2, CallRead 2, CallClose])) =
     [(''pa'', None), (''r'', None), ([], Some ErrUnexpectedEOF), ([], None)]
   \<and> fst (snd (calls tee_truncated Map.empty [CallRead 2, CallRead 2, CallRead 2, CallClose])) = Map.empty"
proof -
  have quiet: "\<forall>res \<in> set (snd (snd (calls tee_truncated Map.empty [CallRead 2, CallRead 2, CallRead 2, CallClose]))).
      snd res \<noteq> Some EOF"
    unfolding tee_truncated_results by simp
  from tee_truncated_results tee_no_commit_without_EOF [OF quiet] show ?thesis
    by blast
qed

section \<open>Properties of the transport\<close>

lemma cachedResponse_found:
  "c key = Some v \<Longrightarrow> ReadResponse L v req = Inr rsp \<Longrightarrow> cachedResponse L c key req = Inr (Some rsp)"
  by (simp add: cachedResponse_def cache_Get_def)

lemma old_iff:
  "time_Before (time_Add cachedAt d) now = (sint d < now - cachedAt)"
  by (auto simp: time_Before_def time_Add_def)

lemma refresh_delay_minutes:
  fixes w :: "64 word"
  assumes "0 \<le> sint w" and "sint w \<le> 153722867"
  shows "sint (w * Minute) = sint w * 60000000000"
proof -
  have "w * Minute = word_of_int (sint w) * word_of_int 60000000000"
    by (simp add: Minute_def)
  also have "\<dots> = word_of_int (sint w * 60000000000)"
    by (simp only: wi_hom_mult)
  finally have eq: "w * Minute = word_of_int (sint w * 60000000000)" .
  have "sint (w * Minute) = sint (word_of_int (sint w * 60000000000) :: 64 word)"
    by (simp only: eq)
  also have "\<dots> = signed_take_bit (LENGTH(64) - 1) (sint w * 60000000000)"
    by (rule sint_sbintrunc')
  also have "\<dots> = sint w * 60000000000"
    using assms by (intro signed_take_bit_int_eq_self) simp_all
  finally show ?thesis .
qed

lemma RoundTrip_stored:
  assumes get: "Method req = MethodGet" and url: "URL req = Some u"
    and cache: "Cache t = Some c" and stored: "c (URL_Path u) = Some cachedVal"
    and parsed: "ReadResponse L cachedVal req = Inr rsp"
    and date: "Header_index (Header rsp) ''Date'' = d # ds"
    and parsedTime: "ParseTime L d = Inr cachedAt"
  shows "RoundTrip L cfg now t req =
     (if StatusCode rsp = 200 \<or> now - cachedAt \<le> sint (cacheRefreshDelay cfg * Minute)
      then Return (\<lparr> resp = Some (withBody rsp (BufBody (Body rsp))), err = None,
                     logged = mkLog ''CACHE_HIT'' None (Some (StatusCode rsp)) u req \<rparr>, t)
      else Return (fetch L ''CACHE_REFRESH'' True (URL_Path u) u req
                     (t\<lparr> Cache := Some (cache_Delete c (URL_Path u)) \<rparr>)))"
proof -
  have cr: "cachedResponse L (the (Cache t)) (URL_Path u) req = Inr (Some rsp)"
    using cache stored parsed by (simp add: cachedResponse_found)
  show ?thesis
    unfolding RoundTrip_def
    using get url cache cr date parsedTime
    by (simp add: Let_def old_iff StatusOK_def not_less)
qed

lemma fetch_state:
  "snd (fetch L action doCache key u req t) = t\<lparr> Transport := fst (rt_RoundTrip (Transport t) req) \<rparr>"
  by (simp add: fetch_def split: prod.splits sum.splits)

lemma read_entry404:
  "http_ReadResponse entry404 req =
     Inr \<lparr> Status = ''404 Not Found'', StatusCode = 404, Proto = ''HTTP/1.1'',
           Header = [(''Date'', [''Thu, 01 Jan 1970 00:00:00 GMT''])], Body = [] \<rparr>"
  by (simp add: http_ReadResponse_def entry404_def CRLF_def strings_Cut_def digit_def headerLine_def
      strings_Trim_def)

lemma read_entry_baddate:
  "http_ReadResponse entry_baddate req =
     Inr \<lparr> Status = ''404 Not Found'', StatusCode = 404, Proto = ''HTTP/1.1'',
           Header = [(''Date'', [''yesterday''])], Body = [] \<rparr>"
  by (simp add: http_ReadResponse_def entry_baddate_def CRLF_def strings_Cut_def digit_def headerLine_def
      strings_Trim_def)

lemma read_entry_nodate:
  "http_ReadResponse entry_nodate req =
     Inr \<lparr> Status = ''404 Not Found'', StatusCode = 404, Proto = ''HTTP/1.1'',
           Header = [], Body = [] \<rparr>"
  by (simp add: http_ReadResponse_def entry_nodate_def CRLF_def strings_Cut_def digit_def)

lemma sixty_minutes: "sint (60 * Minute) = 3600000000000"
  by (simp add: Minute_def)

text \<open>
  C1, as the code has it. A \<open>GET\<close> with a cache configured finds a stored entry that
  parses, with a \<open>Date\<close> header that parses to \<open>cachedAt\<close>. If the stored status is 200,
  or \<open>now - cachedAt\<close> is at most the refresh delay (the configured minutes as a
  \<open>time.Duration\<close>), the parsed response is returned as it is, nothing is deleted and the
  backend is not called (HIT). Otherwise, a status other than 200 strictly after the
  delay, the entry is deleted and the request goes to the backend once (REFRESH).
\<close>

theorem RoundTrip_cached_entry:
  assumes get: "Method req = MethodGet" and url: "URL req = Some u"
    and cache: "Cache t = Some c" and stored: "c (URL_Path u) = Some cachedVal"
    and parsed: "ReadResponse L cachedVal req = Inr rsp"
    and date: "Header_index (Header rsp) ''Date'' = d # ds"
    and parsedTime: "ParseTime L d = Inr cachedAt"
  shows "RoundTrip L cfg now t req =
     (if StatusCode rsp = 200 \<or> now - cachedAt \<le> sint (cacheRefreshDelay cfg * Minute)
      then Return (\<lparr> resp = Some (withBody rsp (BufBody (Body rsp))), err = None,
                     logged = mkLog ''CACHE_HIT'' None (Some (StatusCode rsp)) u req \<rparr>, t)
      else Return (fetch L ''CACHE_REFRESH'' True (URL_Path u) u req
                     (t\<lparr> Cache := Some (cache_Delete c (URL_Path u)) \<rparr>)))
     \<and> snd (fetch L ''CACHE_REFRESH'' True (URL_Path u) u req
               (t\<lparr> Cache := Some (cache_Delete c (URL_Path u)) \<rparr>)) =
         t\<lparr> Cache := Some (c(URL_Path u := None)),
            Transport := fst (rt_RoundTrip (Transport t) req) \<rparr>"
proof -
  have decision: "RoundTrip L cfg now t req =
     (if StatusCode rsp = 200 \<or> now - cachedAt \<le> sint (cacheRefreshDelay cfg * Minute)
      then Return (\<lparr> resp = Some (withBody rsp (BufBody (Body rsp))), err = None,
                     logged = mkLog ''CACHE_HIT'' None (Some (StatusCode rsp)) u req \<rparr>, t)
      else Return (fetch L ''CACHE_REFRESH'' True (URL_Path u) u req
                     (t\<lparr> Cache := Some (cache_Delete c (URL_Path u)) \<rparr>)))"
    using assms by (rule RoundTrip_stored)
  have refetch: "snd (fetch L ''CACHE_REFRESH'' True (URL_Path u) u req
               (t\<lparr> Cache := Some (cache_Delete c (URL_Path u)) \<rparr>)) =
         t\<lparr> Cache := Some (c(URL_Path u := None)),
            Transport := fst (rt_RoundTrip (Transport t) req) \<rparr>"
    by (simp add: fetch_state cache_Delete_def)
  from decision refetch show ?thesis
    by blast
qed

theorem RoundTrip_cached_entry_witness:
  "RoundTrip net_http cfg60 3600000000001 (holding entry404) get_x =
     Return (fetch net_http ''CACHE_REFRESH'' True ''/x'' url_x get_x
               ((holding entry404)\<lparr> Cache := Some (cache_Delete (cache_Set Map.empty ''/x'' entry404) ''/x'') \<rparr>))"
  using RoundTrip_cached_entry [of get_x url_x "holding entry404" "cache_Set Map.empty ''/x'' entry404"
      entry404 net_http _ "''Thu, 01 Jan 1970 00:00:00 GMT''" "[]" 0 cfg60 3600000000001]
  by (simp add: get_x_def url_x_def holding_def MethodGet_def cache_Set_def net_http_def read_entry404
      Header_index_def http_ParseTime_def cfg60_def sixty_minutes)

text \<open>
  Exactly at the refresh delay: the entry is a 404 dated 1970-01-01 00:00:00, the delay is
  60 minutes and the request arrives at 01:00:00.000000000. The entry is served (HIT) and
  stays in the store.
\<close>

theorem RoundTrip_hit_at_delay_counterexample:
  "RoundTrip net_http cfg60 3600000000000 (holding entry404) get_x =
     Return (\<lparr> resp = Some \<lparr> Status = ''404 Not Found'', StatusCode = 404, Proto = ''HTTP/1.1'',
                              Header = [(''Date'', [''Thu, 01 Jan 1970 00:00:00 GMT''])],
                              Body = BufBody [] \<rparr>,
               err = None,
               logged = \<lparr> logAction = ''CACHE_HIT'', log_status = Some 404,
                          log_Host = ''backend.example'', log_Method = ''GET'', log_Path = ''/x'' \<rparr> \<rparr>,
             holding entry404)"
  by (simp add: RoundTrip_def get_x_def url_x_def holding_def MethodGet_def cache_Set_def cache_Get_def
      cachedResponse_def net_http_def read_entry404 Header_index_def http_ParseTime_def cfg60_def
      sixty_minutes time_Before_def time_Add_def StatusOK_def withBody_def mkLog_def Let_def)

lemma RoundTrip_unparseable_Date:
  assumes get: "Method req = MethodGet" and url: "URL req = Some u"
    and cache: "Cache t = Some c" and stored: "c (URL_Path u) = Some cachedVal"
    and parsed: "ReadResponse L cachedVal req = Inr rsp"
    and date: "Header_index (Header rsp) ''Date'' = d # ds"
    and parsedTime: "ParseTime L d = Inl e"
  shows "RoundTrip L cfg now t req = Fatal ''Failed to parse cached request Date: %v''"
proof -
  have cr: "cachedResponse L (the (Cache t)) (URL_Path u) req = Inr (Some rsp)"
    using cache stored parsed by (simp add: cachedResponse_found)
  show ?thesis
    unfolding RoundTrip_def
    using get url cache cr date parsedTime
    by (simp add: Let_def)
qed

text \<open>
  C2. A stored entry whose \<open>Date\<close> header does not parse: the transport calls
  \<open>log.Fatalf\<close>, where the entry should have been ignored and the backend asked.
\<close>

theorem RoundTrip_bad_Date_fatal:
  "RoundTrip net_http cfg60 0 (holding entry_baddate) get_x = Fatal ''Failed to parse cached request Date: %v''"
  by (simp add: RoundTrip_def get_x_def url_x_def holding_def MethodGet_def cache_Set_def cache_Get_def
      cachedResponse_def net_http_def read_entry_baddate Header_index_def http_ParseTime_def Let_def)

text \<open>
  C10. For a \<open>GET\<close> whose stored entry parses into a response, the lookup panics, with
  an index out of range, exactly when the response has no first \<open>Date\<close> value.
\<close>

theorem RoundTrip_Date_index:
  assumes get: "Method req = MethodGet" and url: "URL req = Some u"
    and cache: "Cache t = Some c" and stored: "c (URL_Path u) = Some cachedVal"
    and parsed: "ReadResponse L cachedVal req = Inr rsp"
  shows "(\<exists>m. RoundTrip L cfg now t req = Panic m) = (Header_index (Header rsp) ''Date'' = [])"
proof -
  have cr: "cachedResponse L (the (Cache t)) (URL_Path u) req = Inr (Some rsp)"
    using cache stored parsed by (simp add: cachedResponse_found)
  show ?thesis
    unfolding RoundTrip_def
    using get url cache cr
    by (simp add: Let_def split: list.splits sum.splits)
qed

theorem RoundTrip_Date_index_witness:
  "\<exists>m. RoundTrip net_http cfg60 0 (holding entry_nodate) get_x = Panic m"
  using RoundTrip_Date_index [of get_x url_x "holding entry_nodate" "cache_Set Map.empty ''/x'' entry_nodate"
      entry_nodate net_http _ cfg60 0]
  by (simp add: get_x_def url_x_def holding_def MethodGet_def cache_Set_def net_http_def read_entry_nodate
      Header_index_def)

text \<open>
  C7. A \<open>PUT\<close> goes to the backend, once, if and only if writes are allowed; otherwise
  the transport returns the response read from the literal
  \<open>HTTP/1.1 405 Method Not Allowed\<close>, with no header and an empty body, no error, and the
  backend is not called. The library is assumed to read that literal as HTTP/1.1 frames it.
\<close>

theorem RoundTrip_PUT_gated:
  assumes put: "Method req = MethodPut" and url: "URL req = Some u"
    and parse: "ReadResponse L droppedRaw req = http_ReadResponse droppedRaw req"
  shows "RoundTrip L cfg now t req =
     (if allowWrites cfg
      then Return (fetch L ''PASSTHROUGH'' False (URL_Path u) u req t)
      else Return (\<lparr> resp = Some \<lparr> Status = ''405 Method Not Allowed'', StatusCode = 405,
                                    Proto = ''HTTP/1.1'', Header = [], Body = BufBody [] \<rparr>,
                     err = None, logged = mkLog ''DROP'' None (Some 405) u req \<rparr>, t))
     \<and> snd (fetch L ''PASSTHROUGH'' False (URL_Path u) u req t) =
         t\<lparr> Transport := fst (rt_RoundTrip (Transport t) req) \<rparr>"
proof -
  have "http_ReadResponse droppedRaw req =
      Inr \<lparr> Status = ''405 Method Not Allowed'', StatusCode = 405, Proto = ''HTTP/1.1'',
            Header = [], Body = [] \<rparr>"
    by (simp add: http_ReadResponse_def droppedRaw_def CRLF_def strings_Cut_def digit_def)
  with parse have "newDroppedResponse L req =
      Return \<lparr> Status = ''405 Method Not Allowed'', StatusCode = 405, Proto = ''HTTP/1.1'',
               Header = [], Body = [] \<rparr>"
    by (simp add: newDroppedResponse_def)
  then have "RoundTrip L cfg now t req =
     (if allowWrites cfg
      then Return (fetch L ''PASSTHROUGH'' False (URL_Path u) u req t)
      else Return (\<lparr> resp = Some \<lparr> Status = ''405 Method Not Allowed'', StatusCode = 405,
                                    Proto = ''HTTP/1.1'', Header = [], Body = BufBody [] \<rparr>,
                     err = None, logged = mkLog ''DROP'' None (Some 405) u req \<rparr>, t))"
    unfolding RoundTrip_def using put url
    by (simp add: Let_def MethodGet_def MethodPut_def withBody_def)
  then show ?thesis
    by (simp add: fetch_state)
qed

theorem RoundTrip_PUT_gated_witness:
  "RoundTrip net_http cfg60 0 empty_cache put_x =
     Return (\<lparr> resp = Some \<lparr> Status = ''405 Method Not Allowed'', StatusCode = 405,
                              Proto = ''HTTP/1.1'', Header = [], Body = BufBody [] \<rparr>,
               err = None, logged = mkLog ''DROP'' None (Some 405) url_x put_x \<rparr>, empty_cache)
   \<and> RoundTrip net_http cfg60_writes 0 empty_cache put_x =
       Return (fetch net_http ''PASSTHROUGH'' False ''/x'' url_x put_x empty_cache)
   \<and> rt_self (Transport (snd (fetch net_http ''PASSTHROUGH'' False ''/x'' url_x put_x empty_cache))) = 1"
  using RoundTrip_PUT_gated [of put_x url_x net_http cfg60 0 empty_cache]
    RoundTrip_PUT_gated [of put_x url_x net_http cfg60_writes 0 empty_cache]
  by (simp add: put_x_def url_x_def MethodPut_def net_http_def cfg60_def cfg60_writes_def
      fetch_def rt_RoundTrip_def empty_cache_def origin_def originM_def)

text \<open>
  What the transport does around the library's dump and read. A \<open>GET\<close> that misses goes
  to the backend; a fetch for a request that is cached returns the backend's response with
  its body wrapped in the tee; a reader that reads that body to its end makes the callback
  run once, on all the bytes of the body. With \<open>RoundTrip_stored\<close>, a later hit returns
  what the library reads from the bytes stored then. Whether that is the response that was
  dumped is a property of the library's dump and read, which are parameters here.
\<close>

lemma RoundTrip_miss:
  assumes "Method req = MethodGet" and "URL req = Some u" and "Cache t = Some c"
    and "c (URL_Path u) = None"
  shows "RoundTrip L cfg now t req = Return (fetch L ''CACHE_MISS'' True (URL_Path u) u req t)"
  unfolding RoundTrip_def using assms
  by (simp add: Let_def cachedResponse_def cache_Get_def)

lemma fetch_response:
  assumes "rt_RoundTrip (Transport t) req = (T', Inr r)"
  shows "fetch L action True key u req t =
     (\<lparr> resp = Some (withBody r (TeeBody (newCachingReadCloser (Body r) (OnEOF_commit L key r)))),
         err = None, logged = mkLog action None (Some (StatusCode r)) u req \<rparr>,
      t\<lparr> Transport := T' \<rparr>)"
  using assms by (simp add: fetch_def)

lemma drain_commits:
  assumes "body = newByteStream bs EOF eag" and "\<forall>n \<in> set ns. 0 < n" and "length bs < length ns"
  shows "snd (fst (copyBody (newCachingReadCloser body f) c ns)) = f bs c"
proof -
  let ?s = "\<lparr> pending = bs, atEnd = EOF, eager = eag, closed = False \<rparr>"
  have rf: "reads_from (newCachingReadCloser body f) ?s"
    unfolding assms(1) by (rule reads_from_new)
  show ?thesis
    using copyBody_byteStream [OF rf, of ns c] assms(2,3)
    by (simp add: newCachingReadCloser_def)
qed

section \<open>Properties of the wiring\<close>

lemma main_handler_Transport: "handler_Transport (main_wiring cfg) = DefaultTransport"
  by (simp add: main_wiring_def Let_def)

text \<open>
  C3. With \<open>max-retries\<close> 3, \<open>main\<close> builds the retrying transport with that bound and
  then installs the plain default transport in the caching transport: a request that
  proceeds to fetch is sent once, without the retrying transport.
\<close>

theorem main_never_retries:
  "main_wiring cfg_retries3 =
     \<lparr> baseTransport = RehttpTransport DefaultTransport 3, handler_Transport = DefaultTransport \<rparr>"
  by (simp add: main_wiring_def cfg_retries3_def)

end
